theory Spec2Isabelle
  imports Complex_Main
begin

section \<open>Python values used by the signal classifier\<close>

text \<open>
  A Python \<open>float\<close> is a finite number, one of the two infinities, or NaN.  Finite values
  are kept as exact reals: the rounding of IEEE doubles is not modelled, only the special
  values and the way they compare.  Every ordered comparison with NaN is false.
\<close>

datatype pyfloat = Finite real | PosInf | NegInf | NaN

fun flt :: "pyfloat \<Rightarrow> pyfloat \<Rightarrow> bool" where
  "flt (Finite a) (Finite b) = (a < b)"
| "flt (Finite a) PosInf = True"
| "flt NegInf (Finite b) = True"
| "flt NegInf PosInf = True"
| "flt _ _ = False"

fun fle :: "pyfloat \<Rightarrow> pyfloat \<Rightarrow> bool" where
  "fle (Finite a) (Finite b) = (a \<le> b)"
| "fle (Finite a) PosInf = True"
| "fle NegInf (Finite b) = True"
| "fle NegInf PosInf = True"
| "fle NegInf NegInf = True"
| "fle PosInf PosInf = True"
| "fle _ _ = False"

definition fgt :: "pyfloat \<Rightarrow> pyfloat \<Rightarrow> bool" where
  "fgt a b = flt b a"

definition fge :: "pyfloat \<Rightarrow> pyfloat \<Rightarrow> bool" where
  "fge a b = fle b a"

text \<open>Float subtraction: \<open>inf - inf\<close> and anything involving NaN give NaN.\<close>

fun fsub :: "pyfloat \<Rightarrow> pyfloat \<Rightarrow> pyfloat" where
  "fsub (Finite a) (Finite b) = Finite (a - b)"
| "fsub NaN _ = NaN"
| "fsub _ NaN = NaN"
| "fsub PosInf PosInf = NaN"
| "fsub NegInf NegInf = NaN"
| "fsub PosInf _ = PosInf"
| "fsub NegInf _ = NegInf"
| "fsub (Finite a) PosInf = NegInf"
| "fsub (Finite a) NegInf = PosInf"

text \<open>A raised Python exception, identified by the text \<open>str(e)\<close> gives for it.\<close>

datatype py_exception = PyException string

fun str :: "py_exception \<Rightarrow> string" where
  "str (PyException msg) = msg"

section \<open>signal_classifier.py\<close>

text \<open>
  \<open>SignalRequest\<close> is the pydantic model of the request body: \<open>side\<close> is declared
  \<open>str\<close> and the nine numeric fields \<open>float\<close>, with no validator, so a value of this
  record is any two strings together with any nine floats.
\<close>

record SignalRequest =
  symbol :: string
  side :: string
  rsi :: pyfloat
  macd :: pyfloat
  macd_signal :: pyfloat
  ema_alignment :: pyfloat
  atr_percent :: pyfloat
  volume_ratio :: pyfloat
  cvd :: pyfloat
  adx :: pyfloat
  price :: pyfloat

datatype SignalResponse =
  SignalResponse (resp_symbol: string) (resp_side: string) (probability: pyfloat)
    (recommended: bool) (confidence: string)

datatype http_error = HTTPException nat string

text \<open>
  The loaded model, seen through the one expression that uses it,
  \<open>float(model.predict_proba(features)[0][1])\<close>: given the feature vector it yields a
  float or raises.
\<close>

type_synonym model = "pyfloat list \<Rightarrow> py_exception + pyfloat"

text \<open>
  \<open>load_model\<close>: the model is the unpickled artifact when the file exists and
  \<open>joblib.load\<close> succeeds, and \<open>None\<close> when the file is missing or loading raises.
\<close>

definition load_model :: "bool \<Rightarrow> py_exception + model \<Rightarrow> model option" where
  "load_model path_exists joblib_load =
     (if path_exists
      then (case joblib_load of Inr m \<Rightarrow> Some m | Inl e \<Rightarrow> None)
      else None)"

text \<open>
  An environment variable read as \<open>float(os.getenv(name, default))\<close>: it is unset (the
  default text is converted), set to a text that \<open>float\<close> converts, or set to a text on
  which \<open>float\<close> raises \<open>ValueError\<close>.
\<close>

datatype env_float = EnvUnset | EnvFloat pyfloat | EnvInvalid string

fun getenv_float :: "env_float \<Rightarrow> real \<Rightarrow> py_exception + pyfloat" where
  "getenv_float EnvUnset dflt = Inr (Finite dflt)"
| "getenv_float (EnvFloat x) dflt = Inr x"
| "getenv_float (EnvInvalid msg) dflt = Inl (PyException msg)"

text \<open>The feature row built in \<open>predict_signal\<close> (lines 89 to 100), in the order written.\<close>

definition features :: "SignalRequest \<Rightarrow> pyfloat list" where
  "features request =
     [rsi request,
      macd request,
      macd_signal request,
      fsub (macd request) (macd_signal request),
      ema_alignment request,
      atr_percent request,
      volume_ratio request,
      cvd request,
      adx request,
      (if side request = ''BUY'' then Finite 1 else Finite 0)]"

text \<open>
  The rules of \<open>calculate_fallback_score\<close>, one function for each block of the source that
  adds to \<open>score\<close>.  The score itself only ever holds sums of the literal constants, so it
  is a real.
\<close>

definition rsi_bonus :: "SignalRequest \<Rightarrow> real" where
  "rsi_bonus request =
     (if side request = ''BUY'' then
        (if fle (Finite 40) (rsi request) \<and> fle (rsi request) (Finite 60) then 0.1
         else if flt (rsi request) (Finite 30) then 0.05
         else 0)
      else
        (if fle (Finite 40) (rsi request) \<and> fle (rsi request) (Finite 60) then 0.1
         else if fgt (rsi request) (Finite 70) then 0.05
         else 0))"

definition adx_bonus :: "SignalRequest \<Rightarrow> real" where
  "adx_bonus request =
     (if fgt (adx request) (Finite 25) then 0.15
      else if fgt (adx request) (Finite 20) then 0.08
      else 0)"

definition cvd_bonus :: "SignalRequest \<Rightarrow> real" where
  "cvd_bonus request =
     (if (side request = ''BUY'' \<and> fgt (cvd request) (Finite 0)) \<or>
         (side request = ''SELL'' \<and> flt (cvd request) (Finite 0))
      then 0.1 else 0)"

definition volume_bonus :: "SignalRequest \<Rightarrow> real" where
  "volume_bonus request =
     (if fgt (volume_ratio request) (Finite 1.2) then 0.1 else 0)"

definition ema_bonus :: "SignalRequest \<Rightarrow> real" where
  "ema_bonus request =
     (if (side request = ''BUY'' \<and> fgt (ema_alignment request) (Finite 0)) \<or>
         (side request = ''SELL'' \<and> flt (ema_alignment request) (Finite 0))
      then 0.1 else 0)"

text \<open>The value of \<open>score\<close> just before the clamp of line 176.\<close>

definition raw_score :: "SignalRequest \<Rightarrow> real" where
  "raw_score request =
     0.5 + rsi_bonus request + adx_bonus request + cvd_bonus request
       + volume_bonus request + ema_bonus request"

definition calculate_fallback_score :: "SignalRequest \<Rightarrow> real" where
  "calculate_fallback_score request = max 0 (min 1 (raw_score request))"

text \<open>The confidence level chosen in lines 113 to 119 of \<open>predict_signal\<close>.\<close>

definition confidence_level :: "pyfloat \<Rightarrow> string" where
  "confidence_level p =
     (if fge p (Finite 0.8) then ''HIGH''
      else if fge p (Finite 0.6) then ''MEDIUM''
      else ''LOW'')"

text \<open>
  \<open>predict_signal\<close>, with the global \<open>model\<close> and the environment variable
  \<open>MIN_PROBABILITY\<close> as parameters.  Everything raised inside the \<open>try\<close> block is caught
  and becomes \<open>HTTPException(status_code=500, detail=str(e))\<close>.
\<close>

definition predict_signal ::
  "model option \<Rightarrow> env_float \<Rightarrow> SignalRequest \<Rightarrow> http_error + SignalResponse" where
  "predict_signal model MIN_PROBABILITY request =
     (case (case model of
              Some m \<Rightarrow> m (features request)
            | None \<Rightarrow> Inr (Finite (calculate_fallback_score request))) of
        Inl e \<Rightarrow> Inl (HTTPException 500 (str e))
      | Inr p \<Rightarrow>
          (case getenv_float MIN_PROBABILITY 0.6 of
             Inl e \<Rightarrow> Inl (HTTPException 500 (str e))
           | Inr min_probability \<Rightarrow>
               Inr (SignalResponse (symbol request) (side request) p
                      (fge p min_probability) (confidence_level p))))"

section \<open>train_model.py\<close>

subsection \<open>Data frames\<close>

text \<open>
  A value stored in a data frame or a dictionary: a number (Python \<open>int\<close> and \<open>float\<close>
  alike), a string, a timestamp or \<open>None\<close>.
\<close>

datatype cell = Num pyfloat | Str string | Time nat | PyNone

type_synonym dict = "(string \<times> cell) list"

text \<open>
  A pandas \<open>DataFrame\<close> is the ordered list of its columns, each a name with the values
  of its rows.  The order of this list is the column order of the frame.
\<close>

type_synonym DataFrame = "(string \<times> cell list) list"

definition df_columns :: "DataFrame \<Rightarrow> string list" where
  "df_columns df = map fst df"

definition df_len :: "DataFrame \<Rightarrow> nat" where
  "df_len df = (case df of [] \<Rightarrow> 0 | (name, vs) # rest \<Rightarrow> length vs)"

text \<open>
  \<open>df[name]\<close> raises \<open>KeyError\<close> for a column that is not there; its text is the
  name between single quotes.
\<close>

definition df_column :: "DataFrame \<Rightarrow> string \<Rightarrow> py_exception + cell list" where
  "df_column df name =
     (case map_of df name of
        None \<Rightarrow> Inl (PyException ([CHR 0x27] @ name @ [CHR 0x27]))
      | Some vs \<Rightarrow> Inr vs)"

text \<open>\<open>X.iloc[i]\<close>: the values of row \<open>i\<close>, in column order; \<open>IndexError\<close> out of range.\<close>

definition df_row :: "DataFrame \<Rightarrow> nat \<Rightarrow> py_exception + cell list" where
  "df_row df i =
     (if i < df_len df then Inr (map (\<lambda>(name, vs). vs ! i) df)
      else Inl (PyException ''single positional indexer is out-of-bounds''))"

definition add_key :: "string list \<Rightarrow> string \<Rightarrow> string list" where
  "add_key ks k = (if k \<in> set ks then ks else ks @ [k])"

text \<open>
  \<open>pd.DataFrame(records)\<close> for a list of dictionaries: the columns are the keys in order
  of first appearance, and a key missing from a dictionary gives NaN in its row.
\<close>

definition pd_DataFrame :: "dict list \<Rightarrow> DataFrame" where
  "pd_DataFrame records =
     map (\<lambda>k. (k, map (\<lambda>d. case map_of d k of Some v \<Rightarrow> v | None \<Rightarrow> Num NaN) records))
       (foldl add_key [] (concat (map (map fst) records)))"

text \<open>
  \<open>pd.concat([a, b], ignore_index=True)\<close>: the rows of \<open>a\<close> followed by the rows of
  \<open>b\<close>, over the columns of \<open>a\<close> followed by the new columns of \<open>b\<close>; a column that one
  frame lacks is NaN in that frame's rows.
\<close>

definition column_or_nan :: "DataFrame \<Rightarrow> string \<Rightarrow> cell list" where
  "column_or_nan df k =
     (case map_of df k of Some vs \<Rightarrow> vs | None \<Rightarrow> replicate (df_len df) (Num NaN))"

definition pd_concat :: "DataFrame \<Rightarrow> DataFrame \<Rightarrow> DataFrame" where
  "pd_concat a b =
     map (\<lambda>k. (k, column_or_nan a k @ column_or_nan b k))
       (foldl add_key (df_columns a) (df_columns b))"

text \<open>\<open>df[[names]]\<close>: the named columns in the order asked for.\<close>

fun df_select :: "DataFrame \<Rightarrow> string list \<Rightarrow> py_exception + DataFrame" where
  "df_select df [] = Inr []"
| "df_select df (k # ks) =
     (case df_column df k of
        Inl e \<Rightarrow> Inl e
      | Inr vs \<Rightarrow> (case df_select df ks of Inl e \<Rightarrow> Inl e | Inr cols \<Rightarrow> Inr ((k, vs) # cols)))"

text \<open>
  \<open>df[name] = values\<close>: an existing column is replaced where it stands, a new column is
  appended after the last one.
\<close>

definition df_assign :: "DataFrame \<Rightarrow> string \<Rightarrow> cell list \<Rightarrow> DataFrame" where
  "df_assign df name vs =
     (if name \<in> set (df_columns df)
      then map (\<lambda>(k, old). if k = name then (k, vs) else (k, old)) df
      else df @ [(name, vs)])"

text \<open>
  Element-wise operations on columns.  In the comparison \<open>df["pnl"] > 0\<close> a missing
  value (\<open>None\<close> or NaN) compares false, and a string or a timestamp raises
  \<open>TypeError\<close>; in the subtraction every cell that is not a number raises \<open>TypeError\<close>.
\<close>

fun collect :: "(py_exception + 'a) list \<Rightarrow> py_exception + 'a list" where
  "collect [] = Inr []"
| "collect (x # xs) =
     (case x of
        Inl e \<Rightarrow> Inl e
      | Inr v \<Rightarrow> (case collect xs of Inl e \<Rightarrow> Inl e | Inr vs \<Rightarrow> Inr (v # vs)))"

fun positive_as_int :: "cell \<Rightarrow> py_exception + cell" where
  "positive_as_int (Num x) = Inr (Num (if fgt x (Finite 0) then Finite 1 else Finite 0))"
| "positive_as_int PyNone = Inr (Num (Finite 0))"
| "positive_as_int c = Inl (PyException ''TypeError'')"

fun cell_sub :: "cell \<Rightarrow> cell \<Rightarrow> py_exception + cell" where
  "cell_sub (Num a) (Num b) = Inr (Num (fsub a b))"
| "cell_sub a b = Inl (PyException ''TypeError'')"

definition is_BUY_as_float :: "cell \<Rightarrow> cell" where
  "is_BUY_as_float c = Num (if c = Str ''BUY'' then Finite 1 else Finite 0)"

subsection \<open>Synthetic trades\<close>

text \<open>
  The pseudo-random numbers one iteration of the loop of \<open>generate_synthetic_data\<close>
  consumes: the choice of the side and eleven samples of the unit interval, one for each
  call of \<open>np.random.uniform\<close> and \<open>np.random.random\<close>, in the order of the calls.
\<close>

record draws =
  pick_BUY :: bool
  u_rsi :: real
  u_macd :: real
  u_macd_signal :: real
  u_ema_alignment :: real
  u_atr_percent :: real
  u_volume_ratio :: real
  u_cvd :: real
  u_adx :: real
  u_price :: real
  u_win :: real
  u_pnl :: real

definition uniform :: "real \<Rightarrow> real \<Rightarrow> real \<Rightarrow> real" where
  "uniform low high u = low + (high - low) * u"

text \<open>The value of \<open>win_prob\<close> at line 144, from the features drawn before it.\<close>

definition win_prob :: "string \<Rightarrow> real \<Rightarrow> real \<Rightarrow> real \<Rightarrow> real \<Rightarrow> real \<Rightarrow> real" where
  "win_prob side_v rsi_v adx_v cvd_v volume_ratio_v ema_alignment_v =
     0.5
     + (if side_v = ''BUY'' then
          (if rsi_v < 40 then 0.1 else if rsi_v > 70 then - 0.15 else 0)
        else
          (if rsi_v > 60 then 0.1 else if rsi_v < 30 then - 0.15 else 0))
     + (if adx_v > 25 then 0.15 else 0)
     + (if (side_v = ''BUY'' \<and> cvd_v > 0) \<or> (side_v = ''SELL'' \<and> cvd_v < 0) then 0.1 else 0)
     + (if volume_ratio_v > 1.2 then 0.05 else 0)
     + (if (side_v = ''BUY'' \<and> ema_alignment_v > 0) \<or> (side_v = ''SELL'' \<and> ema_alignment_v < 0)
        then 0.1 else 0)"

definition draw_side :: "draws \<Rightarrow> string" where
  "draw_side d = (if pick_BUY d then ''BUY'' else ''SELL'')"

definition draw_win_prob :: "draws \<Rightarrow> real" where
  "draw_win_prob d =
     win_prob (draw_side d) (uniform 20 80 (u_rsi d)) (uniform 10 50 (u_adx d))
       (uniform (- 1000) 1000 (u_cvd d)) (uniform 0.5 2.0 (u_volume_ratio d))
       (uniform (- 2) 2 (u_ema_alignment d))"

text \<open>The dictionary appended to \<open>data\<close> in one iteration.\<close>

definition synthetic_trade :: "draws \<Rightarrow> dict" where
  "synthetic_trade d =
     (let macd_v = uniform (- 0.5) 0.5 (u_macd d);
          win = (u_win d < draw_win_prob d);
          pnl = (if win then uniform 5 50 (u_pnl d) else uniform (- 30) (- 5) (u_pnl d))
      in [(''side'', Str (draw_side d)),
          (''rsi'', Num (Finite (uniform 20 80 (u_rsi d)))),
          (''macd'', Num (Finite macd_v)),
          (''macd_signal'', Num (Finite (macd_v + uniform (- 0.2) 0.2 (u_macd_signal d)))),
          (''ema_alignment'', Num (Finite (uniform (- 2) 2 (u_ema_alignment d)))),
          (''atr_percent'', Num (Finite (uniform 0.5 3.0 (u_atr_percent d)))),
          (''volume_ratio'', Num (Finite (uniform 0.5 2.0 (u_volume_ratio d)))),
          (''cvd'', Num (Finite (uniform (- 1000) 1000 (u_cvd d)))),
          (''adx'', Num (Finite (uniform 10 50 (u_adx d)))),
          (''price'', Num (Finite (uniform 20000 100000 (u_price d)))),
          (''pnl'', Num (Finite pnl)),
          (''win'', Num (Finite (if win then 1 else 0)))])"

text \<open>
  \<open>generate_synthetic_data\<close>: one trade for each iteration; the argument lists the draws
  of the generator seeded with 42, so its length is \<open>n_samples\<close>.
\<close>

definition generate_synthetic_data :: "draws list \<Rightarrow> DataFrame" where
  "generate_synthetic_data ds = pd_DataFrame (map synthetic_trade ds)"

subsection \<open>fetch_trade_data\<close>

text \<open>
  One record of the query result: its time and its \<open>values\<close> dictionary.
\<close>

record flux_record =
  get_time :: cell
  record_values :: dict

text \<open>
  What the InfluxDB client does inside the \<open>try\<close> block: creating the client and running
  the query yields the tables (each a list of records) or raises, and \<open>client.close()\<close>
  returns or raises.
\<close>

record influx =
  query_tables :: "py_exception + flux_record list list"
  close_raises :: "py_exception option"

definition dict_get :: "dict \<Rightarrow> string \<Rightarrow> cell \<Rightarrow> cell" where
  "dict_get d k dflt = (case map_of d k of Some v \<Rightarrow> v | None \<Rightarrow> dflt)"

text \<open>The dictionary appended to \<open>records\<close> for one record of the result (lines 63 to 70).\<close>

definition trade_record :: "flux_record \<Rightarrow> dict" where
  "trade_record r =
     [(''timestamp'', get_time r),
      (''symbol'', dict_get (record_values r) ''symbol'' PyNone),
      (''side'', dict_get (record_values r) ''side'' PyNone),
      (''pnl'', dict_get (record_values r) ''pnl'' (Num (Finite 0))),
      (''entry_price'', dict_get (record_values r) ''entry_price'' (Num (Finite 0))),
      (''exit_price'', dict_get (record_values r) ''exit_price'' (Num (Finite 0)))]"

text \<open>The body of the \<open>try\<close> block (lines 43 to 82): a frame, or the exception raised.\<close>

definition fetch_from_influx :: "influx \<Rightarrow> draws list \<Rightarrow> py_exception + DataFrame" where
  "fetch_from_influx db ds =
     (case query_tables db of
        Inl e \<Rightarrow> Inl e
      | Inr tables \<Rightarrow>
          (let records = map trade_record (concat tables)
           in case close_raises db of
                Some e \<Rightarrow> Inl e
              | None \<Rightarrow>
                  if length records < 50
                  then Inr (pd_concat (pd_DataFrame records) (generate_synthetic_data ds))
                  else Inr (pd_DataFrame records)))"

text \<open>
  \<open>fetch_trade_data\<close>, with the environment variable \<open>INFLUXDB_TOKEN\<close> (read with the
  default \<open>""\<close>), the behaviour of the database and the random draws as parameters.  The
  result is what the function returns, or what it lets escape to its caller.
\<close>

definition fetch_trade_data ::
  "string option \<Rightarrow> influx \<Rightarrow> draws list \<Rightarrow> py_exception + DataFrame" where
  "fetch_trade_data INFLUXDB_TOKEN db ds =
     (if (case INFLUXDB_TOKEN of None \<Rightarrow> '''' | Some t \<Rightarrow> t) = ''''
      then Inr (generate_synthetic_data ds)
      else (case fetch_from_influx db ds of
              Inr df \<Rightarrow> Inr df
            | Inl e \<Rightarrow> Inr (generate_synthetic_data ds)))"

subsection \<open>prepare_features\<close>

text \<open>Lines 170 and 171: the label is derived from \<open>pnl\<close> when the frame has no \<open>win\<close>.\<close>

definition add_win :: "DataFrame \<Rightarrow> py_exception + DataFrame" where
  "add_win df =
     (if ''win'' \<in> set (df_columns df) then Inr df
      else (case df_column df ''pnl'' of
              Inl e \<Rightarrow> Inl e
            | Inr pnl \<Rightarrow>
                (case collect (map positive_as_int pnl) of
                   Inl e \<Rightarrow> Inl e
                 | Inr win \<Rightarrow> Inr (df_assign df ''win'' win))))"

definition required_features :: "string list" where
  "required_features =
     [''rsi'', ''macd'', ''macd_signal'', ''ema_alignment'',
      ''atr_percent'', ''volume_ratio'', ''cvd'', ''adx'']"

text \<open>
  Lines 177 to 180: a required feature the frame lacks is filled with random numbers;
  \<open>rng feature i\<close> is the number drawn for row \<open>i\<close> of that feature.
\<close>

fun add_missing :: "(string \<Rightarrow> nat \<Rightarrow> real) \<Rightarrow> string list \<Rightarrow> DataFrame \<Rightarrow> DataFrame" where
  "add_missing rng [] df = df"
| "add_missing rng (feature # rest) df =
     add_missing rng rest
       (if feature \<in> set (df_columns df) then df
        else df_assign df feature (map (\<lambda>i. Num (Finite (rng feature i))) [0..<df_len df]))"

text \<open>\<open>prepare_features\<close>: the feature matrix \<open>X\<close> and the target \<open>y\<close>.\<close>

definition prepare_features ::
  "(string \<Rightarrow> nat \<Rightarrow> real) \<Rightarrow> DataFrame \<Rightarrow> py_exception + (DataFrame \<times> cell list)" where
  "prepare_features rng df0 =
     (case add_win df0 of
        Inl e \<Rightarrow> Inl e
      | Inr df1 \<Rightarrow>
     (let df = add_missing rng required_features df1 in
      case df_select df [''rsi'', ''macd'', ''macd_signal'', ''ema_alignment'',
                         ''atr_percent'', ''volume_ratio'', ''cvd'', ''adx''] of
        Inl e \<Rightarrow> Inl e
      | Inr X0 \<Rightarrow>
     (case df_column X0 ''macd'' of
        Inl e \<Rightarrow> Inl e
      | Inr macd_col \<Rightarrow>
     (case df_column X0 ''macd_signal'' of
        Inl e \<Rightarrow> Inl e
      | Inr macd_signal_col \<Rightarrow>
     (case collect (map2 cell_sub macd_col macd_signal_col) of
        Inl e \<Rightarrow> Inl e
      | Inr histogram \<Rightarrow>
     (let X1 = df_assign X0 ''macd_histogram'' histogram in
      case df_column df ''side'' of
        Inl e \<Rightarrow> Inl e
      | Inr side_col \<Rightarrow>
     (let X = df_assign X1 ''side_encoded'' (map is_BUY_as_float side_col) in
      case df_column df ''win'' of
        Inl e \<Rightarrow> Inl e
      | Inr y \<Rightarrow> Inr (X, y))))))))"

section \<open>Concrete inputs\<close>

text \<open>The example signal of the specification, for a given symbol.\<close>

definition spec_example :: "string \<Rightarrow> SignalRequest" where
  "spec_example nm =
     \<lparr>symbol = nm, side = ''BUY'', rsi = Finite 50, macd = Finite 0.1,
      macd_signal = Finite 0.05, ema_alignment = Finite 1.0, atr_percent = Finite 1.5,
      volume_ratio = Finite 1.5, cvd = Finite 100, adx = Finite 30, price = Finite 50000\<rparr>"

text \<open>A signal on which no rule fires.\<close>

definition quiet_request :: SignalRequest where
  "quiet_request =
     \<lparr>symbol = ''ETHUSDT'', side = ''SELL'', rsi = Finite 35, macd = Finite 0,
      macd_signal = Finite 0, ema_alignment = Finite 0, atr_percent = Finite 1,
      volume_ratio = Finite 1.0, cvd = Finite 0, adx = Finite 10, price = Finite 1000\<rparr>"

text \<open>The example signal with the side \<open>"LONG"\<close>.\<close>

definition long_request :: SignalRequest where
  "long_request =
     \<lparr>symbol = ''BTCUSDT'', side = ''LONG'', rsi = Finite 50, macd = Finite 0.1,
      macd_signal = Finite 0.05, ema_alignment = Finite 1.0, atr_percent = Finite 1.5,
      volume_ratio = Finite 1.5, cvd = Finite 100, adx = Finite 30, price = Finite 50000\<rparr>"

text \<open>A bearish signal, to be sent with the side \<open>"LONG"\<close> and with the side \<open>"SELL"\<close>.\<close>

definition bearish :: "string \<Rightarrow> SignalRequest" where
  "bearish sd =
     \<lparr>symbol = ''BTCUSDT'', side = sd, rsi = Finite 75, macd = Finite (- 0.1),
      macd_signal = Finite 0.05, ema_alignment = Finite (- 1), atr_percent = Finite 1.5,
      volume_ratio = Finite 1.0, cvd = Finite (- 100), adx = Finite 10, price = Finite 50000\<rparr>"

text \<open>A signal whose ten feature values are pairwise different.\<close>

definition example_signal :: SignalRequest where
  "example_signal =
     \<lparr>symbol = ''BTCUSDT'', side = ''BUY'', rsi = Finite 55, macd = Finite 0.3,
      macd_signal = Finite 0.1, ema_alignment = Finite 0.5, atr_percent = Finite 1.5,
      volume_ratio = Finite 1.3, cvd = Finite 100, adx = Finite 30, price = Finite 50000\<rparr>"

text \<open>A model whose prediction raises, and a model that predicts a fixed probability.\<close>

definition raising_model :: model where
  "raising_model fs = Inl (PyException ''Feature shape mismatch, expected: 9, got 10'')"

definition constant_model :: "pyfloat \<Rightarrow> model" where
  "constant_model p fs = Inr p"

text \<open>
  The training record that holds the fields of a signal, with the keys and the key order
  of the dictionaries built in \<open>generate_synthetic_data\<close>.
\<close>

definition trade_of_signal :: "SignalRequest \<Rightarrow> cell \<Rightarrow> cell \<Rightarrow> dict" where
  "trade_of_signal request pnl_v win_v =
     [(''side'', Str (side request)), (''rsi'', Num (rsi request)),
      (''macd'', Num (macd request)), (''macd_signal'', Num (macd_signal request)),
      (''ema_alignment'', Num (ema_alignment request)),
      (''atr_percent'', Num (atr_percent request)),
      (''volume_ratio'', Num (volume_ratio request)), (''cvd'', Num (cvd request)),
      (''adx'', Num (adx request)), (''price'', Num (price request)),
      (''pnl'', pnl_v), (''win'', win_v)]"

definition no_rng :: "string \<Rightarrow> nat \<Rightarrow> real" where
  "no_rng feature i = 0"

text \<open>
  Draws that give the lowest and the highest \<open>win_prob\<close>: a BUY with RSI 75, ADX 10,
  CVD -500, volume ratio 0.8 and EMA alignment -1, and a BUY with RSI 30, ADX 30, CVD 500,
  volume ratio 1.7 and EMA alignment 1.
\<close>

definition worst_draws :: draws where
  "worst_draws =
     \<lparr>pick_BUY = True, u_rsi = 11 / 12, u_macd = 0.5, u_macd_signal = 0.5,
      u_ema_alignment = 0.25, u_atr_percent = 0.5, u_volume_ratio = 0.2, u_cvd = 0.25,
      u_adx = 0, u_price = 0.5, u_win = 0.5, u_pnl = 0.5\<rparr>"

definition best_draws :: draws where
  "best_draws =
     \<lparr>pick_BUY = True, u_rsi = 1 / 6, u_macd = 0.5, u_macd_signal = 0.5,
      u_ema_alignment = 0.75, u_atr_percent = 0.5, u_volume_ratio = 0.8, u_cvd = 0.75,
      u_adx = 0.5, u_price = 0.5, u_win = 0.5, u_pnl = 0.2\<rparr>"

text \<open>A database holding one closed position, and a database that cannot be reached.\<close>

definition closed_position :: flux_record where
  "closed_position =
     \<lparr>get_time = Time 1700000000,
      record_values = [(''symbol'', Str ''BTCUSDT''), (''side'', Str ''SELL''),
                       (''pnl'', Num (Finite 12.5)), (''entry_price'', Num (Finite 50000))]\<rparr>"

definition one_trade_db :: influx where
  "one_trade_db = \<lparr>query_tables = Inr [[closed_position]], close_raises = None\<rparr>"

definition unreachable_db :: influx where
  "unreachable_db =
     \<lparr>query_tables = Inl (PyException ''Connection refused''), close_raises = None\<rparr>"

section \<open>Properties of the scoring service\<close>

subsection \<open>Auxiliary facts\<close>

lemma fge_Finite: "fge (Finite a) (Finite b) = (b \<le> a)"
  by (simp add: fge_def)

lemma rsi_bonus_range: "0 \<le> rsi_bonus r \<and> rsi_bonus r \<le> 0.1"
  by (simp add: rsi_bonus_def)

lemma adx_bonus_range: "0 \<le> adx_bonus r \<and> adx_bonus r \<le> 0.15"
  by (simp add: adx_bonus_def)

lemma cvd_bonus_range: "0 \<le> cvd_bonus r \<and> cvd_bonus r \<le> 0.1"
  by (simp add: cvd_bonus_def)

lemma volume_bonus_range: "0 \<le> volume_bonus r \<and> volume_bonus r \<le> 0.1"
  by (simp add: volume_bonus_def)

lemma ema_bonus_range: "0 \<le> ema_bonus r \<and> ema_bonus r \<le> 0.1"
  by (simp add: ema_bonus_def)

lemma raw_score_range: "0.5 \<le> raw_score r \<and> raw_score r \<le> 1.05"
  using rsi_bonus_range [of r] adx_bonus_range [of r] cvd_bonus_range [of r]
    volume_bonus_range [of r] ema_bonus_range [of r]
  by (simp add: raw_score_def)

lemma spec_example_bonuses:
  "rsi_bonus (spec_example nm) = 0.1 \<and> adx_bonus (spec_example nm) = 0.15 \<and>
   cvd_bonus (spec_example nm) = 0.1 \<and> volume_bonus (spec_example nm) = 0.1 \<and>
   ema_bonus (spec_example nm) = 0.1"
  by (simp add: rsi_bonus_def adx_bonus_def cvd_bonus_def volume_bonus_def ema_bonus_def
      spec_example_def fgt_def)

lemma spec_example_raw: "raw_score (spec_example nm) = 1.05"
  using spec_example_bonuses [of nm] by (simp add: raw_score_def)

lemma spec_example_score: "calculate_fallback_score (spec_example nm) = 1"
  by (simp add: calculate_fallback_score_def spec_example_raw)

lemma quiet_request_raw: "raw_score quiet_request = 0.5"
  by (simp add: raw_score_def rsi_bonus_def adx_bonus_def cvd_bonus_def volume_bonus_def
      ema_bonus_def quiet_request_def fgt_def)

lemma long_request_score: "calculate_fallback_score long_request = 0.85"
  by (simp add: calculate_fallback_score_def raw_score_def rsi_bonus_def adx_bonus_def
      cvd_bonus_def volume_bonus_def ema_bonus_def long_request_def fgt_def)

text \<open>The shape of every response that \<open>predict_signal\<close> returns.\<close>

lemma predict_signal_Inr:
  assumes "predict_signal model env request = Inr resp"
  shows "\<exists>p t. resp = SignalResponse (symbol request) (side request) p (fge p t)
                        (confidence_level p)
           \<and> getenv_float env 0.6 = Inr t"
  using assms unfolding predict_signal_def
  by (auto split: sum.splits option.splits)

text \<open>Without a model and with the default threshold every request is answered.\<close>

lemma predict_signal_fallback:
  "predict_signal None EnvUnset request =
     Inr (SignalResponse (symbol request) (side request)
            (Finite (calculate_fallback_score request))
            (0.6 \<le> calculate_fallback_score request)
            (confidence_level (Finite (calculate_fallback_score request))))"
  by (simp add: predict_signal_def fge_def)

text \<open>A model file that fails to load leaves the service in fallback mode.\<close>

lemma load_failure_uses_fallback:
  "predict_signal (load_model exists_path (Inl e)) EnvUnset request =
     predict_signal None EnvUnset request"
  by (simp add: load_model_def)

subsection \<open>Failure of the loaded model\<close>

text \<open>
  Claim C2 says that a request is answered by the rule-based scorer when the prediction of
  the loaded model raises.  It is not: for the specification's example signal and a model
  whose prediction raises, the request fails with status 500 and the text of the
  exception, while the same request without a model is answered with probability 1.
\<close>

theorem model_failure_is_http_500:
  "predict_signal (Some raising_model) EnvUnset (spec_example ''BTCUSDT'')
     = Inl (HTTPException 500 ''Feature shape mismatch, expected: 9, got 10'') \<and>
   predict_signal None EnvUnset (spec_example ''BTCUSDT'')
     = Inr (SignalResponse ''BTCUSDT'' ''BUY'' (Finite 1) True ''HIGH'')"
proof -
  have "predict_signal (Some raising_model) EnvUnset (spec_example ''BTCUSDT'')
     = Inl (HTTPException 500 ''Feature shape mismatch, expected: 9, got 10'')"
    by (simp add: predict_signal_def raising_model_def)
  moreover have "symbol (spec_example ''BTCUSDT'') = ''BTCUSDT''"
    "side (spec_example ''BTCUSDT'') = ''BUY''"
    by (simp_all add: spec_example_def)
  ultimately show ?thesis
    by (simp add: predict_signal_fallback spec_example_score confidence_level_def fge_Finite)
qed

text \<open>
  Claim C2, amended: while a model is loaded, a request on whose feature vector the
  model's prediction raises is not answered; \<open>predict_signal\<close> raises an HTTP error with
  status 500 whose detail is the text of the exception, whatever the threshold setting.
  The rule-based scorer is used only when no model is loaded: when the loaded model
  answers, the probability of the response is the model's answer, and recommendation and
  confidence are taken from it; without a model the probability is the fallback score.
\<close>

theorem fallback_only_without_model:
  "(m (features request) = Inl e \<longrightarrow>
      predict_signal (Some m) env request = Inl (HTTPException 500 (str e))) \<and>
   (m (features request) = Inr p \<and> getenv_float env 0.6 = Inr t \<longrightarrow>
      predict_signal (Some m) env request =
        Inr (SignalResponse (symbol request) (side request) p (fge p t) (confidence_level p))) \<and>
   (getenv_float env 0.6 = Inr t \<longrightarrow>
      predict_signal None env request =
        Inr (SignalResponse (symbol request) (side request)
               (Finite (calculate_fallback_score request))
               (fge (Finite (calculate_fallback_score request)) t)
               (confidence_level (Finite (calculate_fallback_score request)))))"
  by (simp add: predict_signal_def)

text \<open>
  A model that raises on the quiet signal; a model that answers 0.1 on the example signal,
  whose fallback score is 1; and the example signal without a model.
\<close>

theorem fallback_only_without_model_witness:
  "raising_model (features quiet_request)
     = Inl (PyException ''Feature shape mismatch, expected: 9, got 10'') \<and>
   predict_signal (Some raising_model) (EnvFloat (Finite 0.7)) quiet_request
     = Inl (HTTPException 500 ''Feature shape mismatch, expected: 9, got 10'') \<and>
   constant_model (Finite 0.1) (features (spec_example ''BTCUSDT'')) = Inr (Finite 0.1) \<and>
   getenv_float EnvUnset 0.6 = Inr (Finite 0.6) \<and>
   calculate_fallback_score (spec_example ''BTCUSDT'') = 1 \<and>
   predict_signal (Some (constant_model (Finite 0.1))) EnvUnset (spec_example ''BTCUSDT'')
     = Inr (SignalResponse ''BTCUSDT'' ''BUY'' (Finite 0.1) False ''LOW'') \<and>
   predict_signal None EnvUnset (spec_example ''BTCUSDT'')
     = Inr (SignalResponse ''BTCUSDT'' ''BUY'' (Finite 1) True ''HIGH'')"
proof -
  have h1: "raising_model (features quiet_request)
     = Inl (PyException ''Feature shape mismatch, expected: 9, got 10'')"
    by (simp add: raising_model_def)
  have h2: "constant_model (Finite 0.1) (features (spec_example ''BTCUSDT'')) = Inr (Finite 0.1)"
    by (simp add: constant_model_def)
  have h3: "getenv_float EnvUnset 0.6 = Inr (Finite 0.6)"
    by simp
  have fields: "symbol (spec_example ''BTCUSDT'') = ''BTCUSDT''"
    "side (spec_example ''BTCUSDT'') = ''BUY''"
    by (simp_all add: spec_example_def)
  have levels: "confidence_level (Finite 0.1) = ''LOW''" "confidence_level (Finite 1) = ''HIGH''"
    by (simp_all add: confidence_level_def fge_Finite)
  from fallback_only_without_model
         [of raising_model quiet_request _ "EnvFloat (Finite 0.7)" "Finite 0" "Finite 0"] h1
  have r1: "predict_signal (Some raising_model) (EnvFloat (Finite 0.7)) quiet_request
     = Inl (HTTPException 500 ''Feature shape mismatch, expected: 9, got 10'')"
    by simp
  from fallback_only_without_model
         [of "constant_model (Finite 0.1)" "spec_example ''BTCUSDT''" "PyException []" EnvUnset
            "Finite 0.1" "Finite 0.6"] h2 h3
  have r2: "predict_signal (Some (constant_model (Finite 0.1))) EnvUnset (spec_example ''BTCUSDT'')
     = Inr (SignalResponse ''BTCUSDT'' ''BUY'' (Finite 0.1) False ''LOW'')"
    and r3: "predict_signal None EnvUnset (spec_example ''BTCUSDT'')
     = Inr (SignalResponse ''BTCUSDT'' ''BUY'' (Finite 1) True ''HIGH'')"
    by (simp_all add: fields levels spec_example_score fge_Finite)
  show ?thesis
    using h1 h2 h3 r1 r2 r3 spec_example_score [of "''BTCUSDT''"] by simp
qed

subsection \<open>Validation of the request\<close>

text \<open>
  Claim C3 says that a request whose side is neither \<open>"BUY"\<close> nor \<open>"SELL"\<close> is rejected.
  The example signal with the side \<open>"LONG"\<close> is answered: probability 0.85, confidence
  HIGH, recommended.
\<close>

theorem long_side_is_scored:
  "predict_signal None EnvUnset long_request
     = Inr (SignalResponse ''BTCUSDT'' ''LONG'' (Finite 0.85) True ''HIGH'')"
proof -
  have "symbol long_request = ''BTCUSDT''" "side long_request = ''LONG''"
    by (simp_all add: long_request_def)
  then show ?thesis
    by (simp add: predict_signal_fallback long_request_score confidence_level_def fge_Finite)
qed

text \<open>
  Claim C3, amended: the service checks neither the side nor the finiteness of the
  indicators.  Without a model and with the default threshold every request, whatever its
  side string and whatever its floats (NaN and the infinities included), is answered with
  its symbol and side echoed and the fallback score as probability.  In general a request
  fails exactly when the prediction of the loaded model raises or when the configured
  threshold cannot be read as a float.
\<close>

theorem no_request_validation:
  "predict_signal None EnvUnset request =
     Inr (SignalResponse (symbol request) (side request)
            (Finite (calculate_fallback_score request))
            (0.6 \<le> calculate_fallback_score request)
            (confidence_level (Finite (calculate_fallback_score request)))) \<and>
   ((\<exists>err. predict_signal model env request = Inl err) \<longleftrightarrow>
      (\<exists>m e. model = Some m \<and> m (features request) = Inl e) \<or> (\<exists>msg. env = EnvInvalid msg))"
proof -
  have "(\<exists>err. predict_signal model env request = Inl err) \<longleftrightarrow>
      (\<exists>m e. model = Some m \<and> m (features request) = Inl e) \<or> (\<exists>msg. env = EnvInvalid msg)"
    by (cases env; cases model) (auto simp add: predict_signal_def split: sum.splits)
  then show ?thesis
    using predict_signal_fallback [of request] by simp
qed

subsection \<open>The fallback score\<close>

text \<open>
  Claim C4: the fallback score lies between 0.5 and 1.  Every rule adds a bonus that is
  not negative, the sum before the clamp is at most 1.05, the clamp only cuts at 1, the
  sum 1.05 is reached and then clamped to 1, and the base 0.5 is reached when no rule
  fires.  This holds for every request, so in particular for the valid ones.
\<close>

theorem fallback_score_bounds:
  "0.5 \<le> calculate_fallback_score request \<and> calculate_fallback_score request \<le> 1 \<and>
   0 \<le> rsi_bonus request \<and> 0 \<le> adx_bonus request \<and> 0 \<le> cvd_bonus request \<and>
   0 \<le> volume_bonus request \<and> 0 \<le> ema_bonus request \<and>
   raw_score request \<le> 1.05 \<and>
   calculate_fallback_score request = min 1 (raw_score request) \<and>
   (\<exists>r. raw_score r = 1.05 \<and> calculate_fallback_score r = 1) \<and>
   (\<exists>r. raw_score r = 0.5 \<and> calculate_fallback_score r = 0.5)"
proof -
  have range: "0.5 \<le> raw_score request" "raw_score request \<le> 1.05"
    using raw_score_range [of request] by simp_all
  have clamp: "calculate_fallback_score request = min 1 (raw_score request)"
    using range by (simp add: calculate_fallback_score_def)
  have top: "\<exists>r. raw_score r = 1.05 \<and> calculate_fallback_score r = 1"
    using spec_example_raw [of "''BTCUSDT''"] spec_example_score [of "''BTCUSDT''"] by blast
  have "calculate_fallback_score quiet_request = 0.5"
    by (simp add: calculate_fallback_score_def quiet_request_raw)
  then have bottom: "\<exists>r. raw_score r = 0.5 \<and> calculate_fallback_score r = 0.5"
    using quiet_request_raw by blast
  show ?thesis
    using range clamp top bottom rsi_bonus_range [of request] adx_bonus_range [of request]
      cvd_bonus_range [of request] volume_bonus_range [of request] ema_bonus_range [of request]
    by simp
qed

subsection \<open>Confidence and recommendation\<close>

text \<open>
  Claim C5: in every response whose probability is the number \<open>p\<close>, the confidence is
  HIGH exactly when \<open>p\<close> is at least 0.8, MEDIUM exactly when \<open>p\<close> is at least 0.6 and
  below 0.8, and LOW exactly when \<open>p\<close> is below 0.6; it is always one of the three.
\<close>

theorem confidence_bands:
  assumes "predict_signal model env request = Inr resp"
    and "probability resp = Finite p"
  shows "(confidence resp = ''HIGH'' \<longleftrightarrow> 0.8 \<le> p) \<and>
         (confidence resp = ''MEDIUM'' \<longleftrightarrow> 0.6 \<le> p \<and> p < 0.8) \<and>
         (confidence resp = ''LOW'' \<longleftrightarrow> p < 0.6) \<and>
         (confidence resp = ''HIGH'' \<or> confidence resp = ''MEDIUM'' \<or> confidence resp = ''LOW'')"
proof -
  from predict_signal_Inr [OF assms(1)] assms(2)
  have "confidence resp = confidence_level (Finite p)" by auto
  then show ?thesis
    by (auto simp add: confidence_level_def fge_Finite)
qed

text \<open>The boundaries: exactly 0.8 is HIGH, exactly 0.6 is MEDIUM, and 0.5 is LOW.\<close>

theorem confidence_bands_witness:
  "predict_signal (Some (constant_model (Finite 0.8))) EnvUnset quiet_request
     = Inr (SignalResponse ''ETHUSDT'' ''SELL'' (Finite 0.8) True ''HIGH'') \<and>
   predict_signal (Some (constant_model (Finite 0.6))) EnvUnset quiet_request
     = Inr (SignalResponse ''ETHUSDT'' ''SELL'' (Finite 0.6) True ''MEDIUM'') \<and>
   predict_signal None EnvUnset quiet_request
     = Inr (SignalResponse ''ETHUSDT'' ''SELL'' (Finite 0.5) False ''LOW'')"
proof -
  have fields: "symbol quiet_request = ''ETHUSDT''" "side quiet_request = ''SELL''"
    by (simp_all add: quiet_request_def)
  have score: "calculate_fallback_score quiet_request = 0.5"
    by (simp add: calculate_fallback_score_def quiet_request_raw)
  obtain c1 where r1: "predict_signal (Some (constant_model (Finite 0.8))) EnvUnset quiet_request
     = Inr (SignalResponse ''ETHUSDT'' ''SELL'' (Finite 0.8) True c1)"
    by (auto simp add: predict_signal_def constant_model_def fields fge_Finite)
  obtain c2 where r2: "predict_signal (Some (constant_model (Finite 0.6))) EnvUnset quiet_request
     = Inr (SignalResponse ''ETHUSDT'' ''SELL'' (Finite 0.6) True c2)"
    by (auto simp add: predict_signal_def constant_model_def fields fge_Finite)
  obtain c3 where r3: "predict_signal None EnvUnset quiet_request
     = Inr (SignalResponse ''ETHUSDT'' ''SELL'' (Finite 0.5) False c3)"
    by (auto simp add: predict_signal_def fields score fge_Finite)
  from confidence_bands [OF r1, of "0.8"] have "c1 = ''HIGH''" by simp
  moreover from confidence_bands [OF r2, of "0.6"] have "c2 = ''MEDIUM''" by simp
  moreover from confidence_bands [OF r3, of "0.5"] have "c3 = ''LOW''" by simp
  ultimately show ?thesis using r1 r2 r3 by simp
qed

text \<open>
  Claim C6: in every response, \<open>recommended\<close> is true exactly when the probability is
  greater than or equal to the threshold read from \<open>MIN_PROBABILITY\<close>, which is 0.6 when
  the variable is not set.
\<close>

theorem recommended_iff_threshold:
  assumes "predict_signal model env request = Inr resp"
    and "getenv_float env 0.6 = Inr threshold"
  shows "recommended resp \<longleftrightarrow> fge (probability resp) threshold"
  using predict_signal_Inr [OF assms(1)] assms(2) by auto

theorem recommended_iff_threshold_witness:
  "predict_signal None EnvUnset long_request
     = Inr (SignalResponse ''BTCUSDT'' ''LONG'' (Finite 0.85) True ''HIGH'') \<and>
   getenv_float EnvUnset 0.6 = Inr (Finite 0.6) \<and>
   predict_signal None (EnvFloat (Finite 0.9)) long_request
     = Inr (SignalResponse ''BTCUSDT'' ''LONG'' (Finite 0.85) False ''HIGH'') \<and>
   getenv_float (EnvFloat (Finite 0.9)) 0.6 = Inr (Finite 0.9)"
proof -
  have fields: "symbol long_request = ''BTCUSDT''" "side long_request = ''LONG''"
    by (simp_all add: long_request_def)
  obtain b1 where r1: "predict_signal None EnvUnset long_request
     = Inr (SignalResponse ''BTCUSDT'' ''LONG'' (Finite 0.85) b1 ''HIGH'')"
    by (auto simp add: predict_signal_def fields long_request_score confidence_level_def
        fge_Finite)
  obtain b2 where r2: "predict_signal None (EnvFloat (Finite 0.9)) long_request
     = Inr (SignalResponse ''BTCUSDT'' ''LONG'' (Finite 0.85) b2 ''HIGH'')"
    by (auto simp add: predict_signal_def fields long_request_score confidence_level_def
        fge_Finite)
  have t1: "getenv_float EnvUnset 0.6 = Inr (Finite 0.6)" by simp
  have t2: "getenv_float (EnvFloat (Finite 0.9)) 0.6 = Inr (Finite 0.9)" by simp
  from recommended_iff_threshold [OF r1 t1] have "b1 = True" by (simp add: fge_Finite)
  moreover from recommended_iff_threshold [OF r2 t2] have "b2 = False" by (simp add: fge_Finite)
  ultimately show ?thesis using r1 r2 by simp
qed

text \<open>
  Claim C7: on the example signal all five rules fire (0.10, 0.15, 0.10, 0.10 and 0.10),
  the sum 1.05 is clamped to the probability 1, and in fallback mode with the threshold
  0.6, configured or by default, the response has confidence HIGH and is recommended.
\<close>

theorem spec_example_scores_high:
  "rsi_bonus (spec_example nm) = 0.1 \<and> adx_bonus (spec_example nm) = 0.15 \<and>
   cvd_bonus (spec_example nm) = 0.1 \<and> volume_bonus (spec_example nm) = 0.1 \<and>
   ema_bonus (spec_example nm) = 0.1 \<and>
   raw_score (spec_example nm) = 1.05 \<and>
   calculate_fallback_score (spec_example nm) = 1 \<and>
   predict_signal None (EnvFloat (Finite 0.6)) (spec_example nm)
     = Inr (SignalResponse nm ''BUY'' (Finite 1) True ''HIGH'') \<and>
   predict_signal None EnvUnset (spec_example nm)
     = Inr (SignalResponse nm ''BUY'' (Finite 1) True ''HIGH'')"
proof -
  have fields: "symbol (spec_example nm) = nm" "side (spec_example nm) = ''BUY''"
    by (simp_all add: spec_example_def)
  have "predict_signal None (EnvFloat (Finite 0.6)) (spec_example nm)
     = Inr (SignalResponse nm ''BUY'' (Finite 1) True ''HIGH'')"
    by (simp add: predict_signal_def fields spec_example_score confidence_level_def fge_Finite)
  moreover have "predict_signal None EnvUnset (spec_example nm)
     = Inr (SignalResponse nm ''BUY'' (Finite 1) True ''HIGH'')"
    by (simp add: predict_signal_def fields spec_example_score confidence_level_def fge_Finite)
  ultimately show ?thesis
    using spec_example_bonuses [of nm] spec_example_raw [of nm] spec_example_score [of nm]
    by simp
qed

subsection \<open>Sides other than BUY\<close>

text \<open>
  Claim C9 says that every side other than \<open>"BUY"\<close> is scored as a SELL.  For the bearish
  signal the side \<open>"SELL"\<close> earns the CVD and the EMA bonus and scores 0.75, but the side
  \<open>"LONG"\<close> earns neither and scores 0.55.
\<close>

theorem long_side_is_not_scored_as_sell:
  "cvd_bonus (bearish ''LONG'') = 0 \<and> cvd_bonus (bearish ''SELL'') = 0.1 \<and>
   ema_bonus (bearish ''LONG'') = 0 \<and> ema_bonus (bearish ''SELL'') = 0.1 \<and>
   calculate_fallback_score (bearish ''LONG'') = 0.55 \<and>
   calculate_fallback_score (bearish ''SELL'') = 0.75"
  by (simp add: calculate_fallback_score_def raw_score_def rsi_bonus_def adx_bonus_def
      cvd_bonus_def volume_bonus_def ema_bonus_def bearish_def fgt_def)

text \<open>
  Claim C9, amended: for every request whose side is not exactly \<open>"BUY"\<close>, the last
  feature, \<open>side_encoded\<close>, is 0.0 and the RSI rule takes its SELL branch; the CVD and the
  EMA rule give their SELL bonus only when the side is exactly \<open>"SELL"\<close>, and nothing for
  any other side.
\<close>

theorem non_buy_side_scoring:
  assumes "side request \<noteq> ''BUY''"
  shows "features request ! 9 = Finite 0 \<and>
         rsi_bonus request =
           (if fle (Finite 40) (rsi request) \<and> fle (rsi request) (Finite 60) then 0.1
            else if fgt (rsi request) (Finite 70) then 0.05 else 0) \<and>
         cvd_bonus request =
           (if side request = ''SELL'' \<and> flt (cvd request) (Finite 0) then 0.1 else 0) \<and>
         ema_bonus request =
           (if side request = ''SELL'' \<and> flt (ema_alignment request) (Finite 0) then 0.1 else 0)"
  using assms by (simp add: features_def rsi_bonus_def cvd_bonus_def ema_bonus_def)

theorem non_buy_side_scoring_witness:
  "side (bearish ''LONG'') \<noteq> ''BUY'' \<and>
   features (bearish ''LONG'') ! 9 = Finite 0 \<and>
   rsi_bonus (bearish ''LONG'') = 0.05 \<and>
   cvd_bonus (bearish ''LONG'') = 0 \<and>
   ema_bonus (bearish ''LONG'') = 0"
proof -
  have h: "side (bearish ''LONG'') \<noteq> ''BUY''"
    by (simp add: bearish_def)
  have "side (bearish ''LONG'') \<noteq> ''SELL''" "rsi (bearish ''LONG'') = Finite 75"
    by (simp_all add: bearish_def)
  with non_buy_side_scoring [OF h] h show ?thesis
    by (simp add: fgt_def)
qed

section \<open>Properties of the training pipeline\<close>

subsection \<open>Feature order\<close>

lemma pd_DataFrame_trade_of_signal:
  "pd_DataFrame [trade_of_signal r p w] =
     [(''side'', [Str (side r)]), (''rsi'', [Num (rsi r)]), (''macd'', [Num (macd r)]),
      (''macd_signal'', [Num (macd_signal r)]), (''ema_alignment'', [Num (ema_alignment r)]),
      (''atr_percent'', [Num (atr_percent r)]), (''volume_ratio'', [Num (volume_ratio r)]),
      (''cvd'', [Num (cvd r)]), (''adx'', [Num (adx r)]), (''price'', [Num (price r)]),
      (''pnl'', [p]), (''win'', [w])]"
  by (simp add: pd_DataFrame_def trade_of_signal_def add_key_def)

lemma prepare_features_trade_of_signal:
  "prepare_features rng (pd_DataFrame [trade_of_signal r p w]) =
     Inr ([(''rsi'', [Num (rsi r)]), (''macd'', [Num (macd r)]),
           (''macd_signal'', [Num (macd_signal r)]),
           (''ema_alignment'', [Num (ema_alignment r)]),
           (''atr_percent'', [Num (atr_percent r)]),
           (''volume_ratio'', [Num (volume_ratio r)]),
           (''cvd'', [Num (cvd r)]), (''adx'', [Num (adx r)]),
           (''macd_histogram'', [Num (fsub (macd r) (macd_signal r))]),
           (''side_encoded'', [Num (if side r = ''BUY'' then Finite 1 else Finite 0)])],
          [w])"
  unfolding pd_DataFrame_trade_of_signal
  by (simp add: prepare_features_def add_win_def df_columns_def required_features_def
      df_column_def df_assign_def is_BUY_as_float_def)

text \<open>Whatever frame it is given, \<open>prepare_features\<close> returns these ten columns in this order.\<close>

lemma prepare_features_columns:
  assumes "prepare_features rng df = Inr (X, y)"
  shows "df_columns X =
           [''rsi'', ''macd'', ''macd_signal'', ''ema_alignment'', ''atr_percent'',
            ''volume_ratio'', ''cvd'', ''adx'', ''macd_histogram'', ''side_encoded'']"
  using assms unfolding prepare_features_def
  by (auto simp add: Let_def df_assign_def df_columns_def split: sum.splits)

text \<open>
  Claim C1 asks that the row of \<open>X\<close> for a record equals, position for position, the
  feature vector \<open>predict_signal\<close> builds for the same record.  The code does otherwise:
  the two have the same ten values, but \<open>prepare_features\<close> appends \<open>macd_histogram\<close>
  after \<open>adx\<close>, while \<open>predict_signal\<close> puts it fourth, after \<open>macd_signal\<close>.  So the row
  of \<open>X\<close> holds the features of the serving vector at the positions 0, 1, 2, 4, 5, 6, 7,
  8, 3, 9.  For the signal with RSI 55, MACD 0.3, MACD signal 0.1, EMA alignment 0.5, ATR
  1.5, volume ratio 1.3, CVD 100, ADX 30 and side BUY the serving vector has 0.2 (the
  histogram) at position 3 and the training row has 0.5 (the EMA alignment) there.
\<close>

theorem training_row_permutes_serving_features:
  "(case prepare_features rng (pd_DataFrame [trade_of_signal r p w]) of
      Inl e \<Rightarrow> Inl e
    | Inr (X, y) \<Rightarrow> df_row X 0)
     = Inr (map (\<lambda>i. Num (features r ! i)) [0, 1, 2, 4, 5, 6, 7, 8, 3, 9]) \<and>
   (case prepare_features rng (pd_DataFrame [trade_of_signal r p w]) of
      Inl e \<Rightarrow> []
    | Inr (X, y) \<Rightarrow> df_columns X)
     = [''rsi'', ''macd'', ''macd_signal'', ''ema_alignment'', ''atr_percent'',
        ''volume_ratio'', ''cvd'', ''adx'', ''macd_histogram'', ''side_encoded''] \<and>
   map Num (features example_signal)
     = [Num (Finite 55), Num (Finite 0.3), Num (Finite 0.1), Num (Finite 0.2),
        Num (Finite 0.5), Num (Finite 1.5), Num (Finite 1.3), Num (Finite 100),
        Num (Finite 30), Num (Finite 1)] \<and>
   (case prepare_features no_rng
           (pd_DataFrame [trade_of_signal example_signal (Num (Finite 20)) (Num (Finite 1))]) of
      Inl e \<Rightarrow> Inl e
    | Inr (X, y) \<Rightarrow> df_row X 0)
     = Inr [Num (Finite 55), Num (Finite 0.3), Num (Finite 0.1), Num (Finite 0.5),
        Num (Finite 1.5), Num (Finite 1.3), Num (Finite 100), Num (Finite 30),
        Num (Finite 0.2), Num (Finite 1)]"
  unfolding prepare_features_trade_of_signal
  by (simp add: df_row_def df_len_def df_columns_def features_def example_signal_def)

subsection \<open>Fetching the trades\<close>

text \<open>
  Claim C8: \<open>fetch_trade_data\<close> always returns a frame and lets no exception escape.
  When the token is missing or empty, and when the query or the closing of the client
  raises, the frame is the synthetic data alone; when the query yields fewer than 50
  records, it is the frame of these records followed by the synthetic data.
\<close>

theorem fetch_trade_data_never_raises:
  "(\<exists>df. fetch_trade_data tok db ds = Inr df) \<and>
   (tok = None \<or> tok = Some '''' \<longrightarrow>
      fetch_trade_data tok db ds = Inr (generate_synthetic_data ds)) \<and>
   ((\<exists>e. query_tables db = Inl e) \<or> (\<exists>e. close_raises db = Some e) \<longrightarrow>
      fetch_trade_data tok db ds = Inr (generate_synthetic_data ds)) \<and>
   (\<forall>t tables. tok = Some t \<and> t \<noteq> '''' \<and> query_tables db = Inr tables \<and>
        close_raises db = None \<and> length (concat tables) < 50 \<longrightarrow>
      fetch_trade_data tok db ds =
        Inr (pd_concat (pd_DataFrame (map trade_record (concat tables)))
               (generate_synthetic_data ds)))"
  by (auto simp add: fetch_trade_data_def fetch_from_influx_def Let_def
      split: sum.splits option.splits)

text \<open>
  Without a token, with a database that refuses the connection, and with a database that
  holds a single closed position: there the \<open>side\<close> column of the result has the fetched
  SELL followed by the synthetic BUY.
\<close>

theorem fetch_trade_data_never_raises_witness:
  "fetch_trade_data None one_trade_db [best_draws] = Inr (generate_synthetic_data [best_draws]) \<and>
   query_tables unreachable_db = Inl (PyException ''Connection refused'') \<and>
   fetch_trade_data (Some ''secret'') unreachable_db [best_draws]
     = Inr (generate_synthetic_data [best_draws]) \<and>
   query_tables one_trade_db = Inr [[closed_position]] \<and>
   close_raises one_trade_db = None \<and>
   length (concat [[closed_position]]) < 50 \<and>
   fetch_trade_data (Some ''secret'') one_trade_db [best_draws]
     = Inr (pd_concat (pd_DataFrame [trade_record closed_position])
              (generate_synthetic_data [best_draws])) \<and>
   map_of (pd_concat (pd_DataFrame [trade_record closed_position])
              (generate_synthetic_data [best_draws])) ''side''
     = Some [Str ''SELL'', Str ''BUY'']"
proof -
  have q1: "query_tables unreachable_db = Inl (PyException ''Connection refused'')"
    by (simp add: unreachable_db_def)
  have q2: "query_tables one_trade_db = Inr [[closed_position]]"
    "close_raises one_trade_db = None"
    by (simp_all add: one_trade_db_def)
  have side_col: "map_of (pd_concat (pd_DataFrame [trade_record closed_position])
              (generate_synthetic_data [best_draws])) ''side''
     = Some [Str ''SELL'', Str ''BUY'']"
    by (simp add: trade_record_def closed_position_def dict_get_def pd_concat_def
        pd_DataFrame_def add_key_def df_columns_def column_or_nan_def df_len_def
        generate_synthetic_data_def synthetic_trade_def Let_def draw_side_def best_draws_def)
  show ?thesis
    using fetch_trade_data_never_raises [of None one_trade_db "[best_draws]"]
      fetch_trade_data_never_raises [of "Some ''secret''" unreachable_db "[best_draws]"]
      fetch_trade_data_never_raises [of "Some ''secret''" one_trade_db "[best_draws]"]
      q1 q2 side_col
    by simp
qed

subsection \<open>The synthetic win probability\<close>

text \<open>
  Claim C10: the win probability of every synthetic trade lies between 0.35 and 1.  The
  lowest value, 0.35, is the base 0.5 less the RSI penalty 0.15 and lies below the base;
  the highest, the base with the bonuses 0.10, 0.15, 0.10, 0.05 and 0.10, is exactly 1.
  Both are reached by draws of the generator.
\<close>

theorem win_prob_bounds:
  "0.35 \<le> win_prob s r a c v e \<and> win_prob s r a c v e \<le> 1 \<and>
   0.35 \<le> draw_win_prob d \<and> draw_win_prob d \<le> 1 \<and>
   draw_win_prob worst_draws = 0.35 \<and> draw_win_prob best_draws = 1"
proof -
  have b: "0.35 \<le> win_prob s' r' a' c' v' e' \<and> win_prob s' r' a' c' v' e' \<le> 1"
    for s' r' a' c' v' e'
    by (simp add: win_prob_def)
  have "draw_win_prob worst_draws = 0.35"
    by (simp add: draw_win_prob_def win_prob_def draw_side_def uniform_def worst_draws_def)
  moreover have "draw_win_prob best_draws = 1"
    by (simp add: draw_win_prob_def win_prob_def draw_side_def uniform_def best_draws_def)
  ultimately show ?thesis
    using b unfolding draw_win_prob_def by blast
qed

end
